theory Spec2Isabelle
  imports Main "HOL-Library.Word"
begin

unbundle bit_operations_syntax

section \<open>Constants and the task control block\<close>

text \<open>
  The task-based scheduler of \<^verbatim>\<open>src/runtime/scheduler_tasks.go\<close>. The type
  \<open>uintptr\<close> is a word whose width \<open>'w\<close> is the pointer width of the target.
\<close>

definition stackSize :: nat where
  "stackSize = 1024"

text \<open>
  \<^verbatim>\<open>uintptr(uint64(0x670c1333b83bf575) & uint64(^uintptr(0)))\<close>: the 64-bit constant
  is masked with the zero-extended all-ones pointer and converted to the pointer width.
\<close>

definition stackCanary :: "'w::len word" where
  "stackCanary = ucast ((0x670c1333b83bf575 :: 64 word) AND ucast (NOT (0 :: 'w word)))"

text \<open>
  Modelled from the spec: the type \<^verbatim>\<open>taskState\<close> is declared outside this file. The
  data model of the spec gives a task a status and a wake time; the queue link is
  represented by the task's position in the queues of the machine state below.
\<close>

datatype status = Runnable | Sleeping | WaitingOnChannel | Finished

record taskState =
  status :: status
  wake_time :: int

text \<open>
  \<^verbatim>\<open>type task struct\<close>. The type \<^verbatim>\<open>calleeSavedRegs\<close> is declared in the platform
  file; it is a block of pointer-sized registers, read here by register number.
\<close>

record (overloaded) ('w :: len) task =
  calleeSavedRegs :: "nat \<Rightarrow> 'w word"
  sp :: "'w word"
  pc :: "'w word"
  taskState :: taskState
  canary :: "'w word"

text \<open>
  A value of type \<^verbatim>\<open>*task\<close> is \<^verbatim>\<open>nil\<close>, the address of the global
  \<^verbatim>\<open>schedulerState\<close>, or an address cast to a task pointer (\<^verbatim>\<open>(*task)(stack)\<close>).
\<close>

datatype 'a task_ptr = nil | schedulerState_ref | task_at 'a

section \<open>Machine state\<close>

text \<open>
  The two globals of the file, the memory in which the goroutine stacks (and the task
  structures at their bottoms) live, and the state of the collaborators that the file
  calls: the allocator (the regions it has left, and the regions it handed out with
  the sizes asked for), the run queue, the sleep queue, the clock and the scheduler log.
\<close>

record (overloaded) ('w :: len) machine =
  schedulerState :: "'w task"
  currentTask :: "'w word task_ptr"
  memory :: "'w word \<Rightarrow> 'w task"
  free_regions :: "'w word list"
  allocations :: "('w word \<times> nat) list"
  runqueue :: "'w word task_ptr list"
  sleepQueue :: "'w word task_ptr list"
  clock :: int
  schedulerLog :: "(string \<times> 'w word task_ptr) list"

text \<open>
  \<^verbatim>\<open>var schedulerState = task{canary: stackCanary}\<close> and \<^verbatim>\<open>var currentTask *task\<close>:
  every field that the composite literal does not name has Go's zero value, and so has
  the pointer \<open>currentTask\<close>.
\<close>

definition zero_task :: "'w::len task" where
  "zero_task = \<lparr>calleeSavedRegs = (\<lambda>_. 0), sp = 0, pc = 0,
     taskState = \<lparr>status = Runnable, wake_time = 0\<rparr>, canary = 0\<rparr>"

definition schedulerState_init :: "'w::len task" where
  "schedulerState_init = zero_task\<lparr>canary := stackCanary\<rparr>"

definition currentTask_init :: "'w::len word task_ptr" where
  "currentTask_init = nil"

definition load :: "'w::len machine \<Rightarrow> 'w word task_ptr \<Rightarrow> 'w task option" where
  "load s p = (case p of
      nil \<Rightarrow> None
    | schedulerState_ref \<Rightarrow> Some (schedulerState s)
    | task_at a \<Rightarrow> Some (memory s a))"

definition store :: "'w::len word task_ptr \<Rightarrow> 'w task \<Rightarrow> 'w machine \<Rightarrow> 'w machine" where
  "store p t s = (case p of
      nil \<Rightarrow> s
    | schedulerState_ref \<Rightarrow> s\<lparr>schedulerState := t\<rparr>
    | task_at a \<Rightarrow> s\<lparr>memory := (memory s)(a := t)\<rparr>)"

section \<open>Control transfer\<close>

text \<open>
  What running a function of the file leads to: it returns (\<open>Done\<close>), the runtime
  halts with a message (\<open>Halt\<close>), or it reaches the platform's switch primitive
  \<^verbatim>\<open>swapTaskLower(oldTask, newTask)\<close> in some state (\<open>Switch\<close>). Control then belongs
  to other contexts; if a later switch designates this context again, the function
  continues, from the state of that moment, with the last component.
\<close>

datatype ('s, 'p) outcome =
    Done 's
  | Halt string
  | Switch 'p 'p 's "'s \<Rightarrow> ('s, 'p) outcome"

primrec bind :: "('s, 'p) outcome \<Rightarrow> ('s \<Rightarrow> ('s, 'p) outcome) \<Rightarrow> ('s, 'p) outcome" where
  "bind (Done s) f = f s"
| "bind (Halt m) f = Halt m"
| "bind (Switch old new s k) f = Switch old new s (\<lambda>s'. bind (k s') f)"

primrec reaches_switch :: "('s, 'p) outcome \<Rightarrow> bool" where
  "reaches_switch (Done s) = False"
| "reaches_switch (Halt m) = False"
| "reaches_switch (Switch old new s k) = True"

text \<open>
  Modelled from the spec: \<^verbatim>\<open>runtimePanic\<close> is defined outside this file; a fatal
  condition halts the whole runtime with its report and does not return.
\<close>

definition runtimePanic :: "string \<Rightarrow> ('s, 'p) outcome" where
  "runtimePanic msg = Halt msg"

text \<open>
  The compiler guards a field access through a pointer with a nil check; a nil pointer
  ends in \<^verbatim>\<open>nilPanic\<close>, a runtime panic of its own.
\<close>

definition nilPanic :: "('s, 'p) outcome" where
  "nilPanic = runtimePanic ''nil pointer dereference''"

text \<open>
  \<^verbatim>\<open>swapTaskLower\<close> is the platform primitive (\<^verbatim>\<open>tinygo_swapTask\<close>): the switch
  itself.
\<close>

definition swapTaskLower :: "'w::len word task_ptr \<Rightarrow> 'w word task_ptr \<Rightarrow> 'w machine
    \<Rightarrow> ('w machine, 'w word task_ptr) outcome" where
  "swapTaskLower oldTask newTask s = Switch oldTask newTask s Done"

section \<open>The functions of the file\<close>

definition getCoroutine :: "'w::len machine \<Rightarrow> 'w word task_ptr" where
  "getCoroutine s = currentTask s"

definition swapTask :: "'w::len word task_ptr \<Rightarrow> 'w word task_ptr \<Rightarrow> 'w machine
    \<Rightarrow> ('w machine, 'w word task_ptr) outcome" where
  "swapTask oldTask newTask s =
     (case load s oldTask of
        None \<Rightarrow> nilPanic
      | Some t \<Rightarrow>
          bind (if canary t \<noteq> stackCanary
                then runtimePanic ''goroutine stack overflow''
                else Done s)
               (swapTaskLower oldTask newTask))"

definition resume :: "'w::len word task_ptr \<Rightarrow> 'w machine \<Rightarrow> ('w machine, 'w word task_ptr) outcome" where
  "resume t s =
     bind (swapTask schedulerState_ref t (s\<lparr>currentTask := t\<rparr>))
          (\<lambda>s'. Done (s'\<lparr>currentTask := nil\<rparr>))"

definition Goexit :: "'w::len machine \<Rightarrow> ('w machine, 'w word task_ptr) outcome" where
  "Goexit s = swapTask (currentTask s) schedulerState_ref s"

definition deadlock :: "'w::len machine \<Rightarrow> ('w machine, 'w word task_ptr) outcome" where
  "deadlock s = Goexit s"

definition reactivateParent :: "'w::len word task_ptr \<Rightarrow> 'w machine
    \<Rightarrow> ('w machine, 'w word task_ptr) outcome" where
  "reactivateParent t s = Done s"

definition chanYield :: "'w::len machine \<Rightarrow> ('w machine, 'w word task_ptr) outcome" where
  "chanYield s = Goexit s"

text \<open>
  Modelled from the spec: \<^verbatim>\<open>alloc\<close> is the external stack allocator. It returns
  the address of a region of at least the requested size, uninitialized (the memory
  keeps whatever it held), and its failure is fatal. Which region it returns is the
  allocator's choice: \<open>free_regions\<close> lists the base addresses it will hand out.
\<close>

definition alloc :: "nat \<Rightarrow> 'w::len machine \<Rightarrow> ('w word \<times> 'w machine) option" where
  "alloc n s = (case free_regions s of
      [] \<Rightarrow> None
    | a # rest \<Rightarrow>
        Some (a, s\<lparr>free_regions := rest, allocations := allocations s @ [(a, n)]\<rparr>))"

text \<open>Modelled from the spec: \<^verbatim>\<open>scheduleLogTask\<close> is an instrumentation hook.\<close>

definition scheduleLogTask :: "string \<Rightarrow> 'w::len word task_ptr \<Rightarrow> 'w machine
    \<Rightarrow> ('w machine, 'w word task_ptr) outcome" where
  "scheduleLogTask msg t s = Done (s\<lparr>schedulerLog := schedulerLog s @ [(msg, t)]\<rparr>)"

text \<open>
  Modelled from the spec: \<^verbatim>\<open>runqueuePushBack\<close> is defined outside this file; the
  run queue is FIFO and \<open>push_back\<close> appends.
\<close>

definition runqueuePushBack :: "'w::len word task_ptr \<Rightarrow> 'w machine
    \<Rightarrow> ('w machine, 'w word task_ptr) outcome" where
  "runqueuePushBack t s = Done (s\<lparr>runqueue := runqueue s @ [t]\<rparr>)"

text \<open>
  Modelled from the spec: \<^verbatim>\<open>sleepTask\<close> is defined outside this file. It computes
  \<open>wake_time = now() + duration\<close>, sets the status and inserts the task into the sleep
  queue, which is ordered by wake time.
\<close>

definition wake_of :: "'w::len machine \<Rightarrow> 'w word task_ptr \<Rightarrow> int" where
  "wake_of s p = (case load s p of None \<Rightarrow> 0 | Some t \<Rightarrow> wake_time (taskState t))"

definition sleepTask :: "'w::len word task_ptr \<Rightarrow> 64 word \<Rightarrow> 'w machine
    \<Rightarrow> ('w machine, 'w word task_ptr) outcome" where
  "sleepTask t d s =
     (case load s t of
        None \<Rightarrow> nilPanic
      | Some x \<Rightarrow>
          let s1 = store t (x\<lparr>taskState := \<lparr>status = Sleeping, wake_time = clock s + sint d\<rparr>\<rparr>) s
          in Done (s1\<lparr>sleepQueue := insort_key (wake_of s1) t (sleepQueue s1)\<rparr>))"

text \<open>An assignment to a field through a task pointer.\<close>

definition assign :: "'w::len word task_ptr \<Rightarrow> ('w task \<Rightarrow> 'w task) \<Rightarrow> 'w machine
    \<Rightarrow> ('w machine, 'w word task_ptr) outcome" where
  "assign p f s = (case load s p of None \<Rightarrow> nilPanic | Some x \<Rightarrow> Done (store p (f x) s))"

text \<open>
  \<^verbatim>\<open>startGoroutine\<close>. The address of the external symbol \<^verbatim>\<open>startTask\<close>
  (\<^verbatim>\<open>tinygo_startTask\<close>) and the platform's method \<^verbatim>\<open>prepareStartTask\<close>, which
  leaves the function pointer and the argument in callee-saved registers for that
  trampoline, are parameters.
\<close>

definition startGoroutine :: "'w::len word
    \<Rightarrow> ('w word \<Rightarrow> 'w word \<Rightarrow> (nat \<Rightarrow> 'w word) \<Rightarrow> (nat \<Rightarrow> 'w word))
    \<Rightarrow> 'w word \<Rightarrow> 'w word \<Rightarrow> 'w machine \<Rightarrow> ('w machine, 'w word task_ptr) outcome" where
  "startGoroutine startTask prepareStartTask fn args s =
     (case alloc stackSize s of
        None \<Rightarrow> runtimePanic ''out of memory''
      | Some (stack, s0) \<Rightarrow>
          let t = task_at stack in
          bind (assign t (\<lambda>x. x\<lparr>sp := stack + word_of_nat stackSize\<rparr>) s0) (\<lambda>s1.
          bind (assign t (\<lambda>x. x\<lparr>pc := startTask\<rparr>) s1) (\<lambda>s2.
          bind (assign t (\<lambda>x. x\<lparr>calleeSavedRegs :=
                  prepareStartTask fn args (calleeSavedRegs x)\<rparr>) s2) (\<lambda>s3.
          bind (assign t (\<lambda>x. x\<lparr>canary := stackCanary\<rparr>) s3) (\<lambda>s4.
          bind (scheduleLogTask ''  start goroutine:'' t s4) (\<lambda>s5.
          runqueuePushBack t s5))))))"

definition sleep :: "64 word \<Rightarrow> 'w::len machine \<Rightarrow> ('w machine, 'w word task_ptr) outcome" where
  "sleep d s =
     bind (sleepTask (currentTask s) d s)
          (\<lambda>s1. swapTask (currentTask s1) schedulerState_ref s1)"

text \<open>
  No function but \<open>resume\<close> assigns the marker: \<open>keeps_currentTask r c\<close> says that
  the run \<open>r\<close>, entered with marker \<open>c\<close>, has the same marker at each switch it reaches
  and returns with the marker it was resumed with.
\<close>

primrec keeps_currentTask :: "('w::len machine, 'w word task_ptr) outcome
    \<Rightarrow> 'w word task_ptr \<Rightarrow> bool" where
  "keeps_currentTask (Done s') c = (currentTask s' = c)"
| "keeps_currentTask (Halt m) c = True"
| "keeps_currentTask (Switch old new s' k) c =
     (currentTask s' = c \<and> (\<forall>s''. keeps_currentTask (k s'') (currentTask s'')))"

section \<open>Example states\<close>

definition ex_task :: "32 task" where
  "ex_task = \<lparr>calleeSavedRegs = (\<lambda>_. 0), sp = 0x200013C0, pc = 0x08000400,
     taskState = \<lparr>status = Runnable, wake_time = 0\<rparr>, canary = stackCanary\<rparr>"

definition ex_machine :: "32 machine" where
  "ex_machine = \<lparr>schedulerState = schedulerState_init, currentTask = task_at 0x20001000,
     memory = (\<lambda>_. ex_task), free_regions = [0x20002000, 0x20003000],
     allocations = [(0x20001000, 1024)],
     runqueue = [], sleepQueue = [], clock = 100, schedulerLog = []\<rparr>"

text \<open>
  A stack region that was used before and still holds the task structure of a finished
  goroutine, with a canary that was overwritten.
\<close>

definition ex_recycled :: "32 machine" where
  "ex_recycled = ex_machine\<lparr>memory := (memory ex_machine)
     (0x20002000 := ex_task\<lparr>taskState := \<lparr>status = Finished, wake_time = 0\<rparr>, canary := 0\<rparr>)\<rparr>"

definition ex_startTask :: "32 word" where
  "ex_startTask = 0x08000200"

text \<open>A platform that hands the function and its argument over in registers 4 and 5.\<close>

definition ex_prepareStartTask :: "32 word \<Rightarrow> 32 word \<Rightarrow> (nat \<Rightarrow> 32 word) \<Rightarrow> (nat \<Rightarrow> 32 word)" where
  "ex_prepareStartTask fn args regs = regs(4 := fn, 5 := args)"

section \<open>Equations for the functions\<close>

lemma stackCanary_32: "(stackCanary :: 32 word) = 0xb83bf575"
  unfolding stackCanary_def by code_simp

lemma stackCanary_64: "(stackCanary :: 64 word) = 0x670c1333b83bf575"
  unfolding stackCanary_def by code_simp

lemma load_not_nil: "load s p = Some t \<Longrightarrow> p \<noteq> nil"
  by (auto simp add: load_def)

lemma load_store_same: "p \<noteq> nil \<Longrightarrow> load (store p t s) p = Some t"
  by (cases p) (simp_all add: load_def store_def)

lemma load_sleepQueue: "load (s\<lparr>sleepQueue := q\<rparr>) p = load s p"
  by (simp add: load_def split: task_ptr.splits)

lemma currentTask_store: "currentTask (store p t s) = currentTask s"
  by (cases p) (simp_all add: store_def)

lemma swapTask_eq:
  "load s oldTask = Some t \<Longrightarrow>
   swapTask oldTask newTask s =
     (if canary t \<noteq> stackCanary then Halt ''goroutine stack overflow''
      else Switch oldTask newTask s Done)"
  by (simp add: swapTask_def runtimePanic_def swapTaskLower_def)

lemma Goexit_eq:
  "load s (currentTask s) = Some t \<Longrightarrow>
   Goexit s =
     (if canary t = stackCanary then Switch (currentTask s) schedulerState_ref s Done
      else Halt ''goroutine stack overflow'')"
  by (simp add: Goexit_def swapTask_eq)

lemma resume_eq:
  "resume t s =
     (if canary (schedulerState s) = stackCanary
      then Switch schedulerState_ref t (s\<lparr>currentTask := t\<rparr>)
             (\<lambda>s'. Done (s'\<lparr>currentTask := nil\<rparr>))
      else Halt ''goroutine stack overflow'')"
  by (simp add: resume_def swapTask_def load_def runtimePanic_def swapTaskLower_def)

text \<open>The writes of \<open>startGoroutine\<close>, in the order of the source.\<close>

lemma startGoroutine_eq:
  "free_regions s = base # rest \<Longrightarrow>
   startGoroutine st prep fn args s =
     Done (s\<lparr>free_regions := rest,
             allocations := allocations s @ [(base, stackSize)],
             memory := (memory s)(base := (memory s base)\<lparr>
                 sp := base + word_of_nat stackSize, pc := st,
                 calleeSavedRegs := prep fn args (calleeSavedRegs (memory s base)),
                 canary := stackCanary\<rparr>),
             schedulerLog := schedulerLog s @ [(''  start goroutine:'', task_at base)],
             runqueue := runqueue s @ [task_at base]\<rparr>)"
  by (simp add: startGoroutine_def alloc_def assign_def load_def store_def Let_def
      scheduleLogTask_def runqueuePushBack_def)

lemma startGoroutine_oom:
  "free_regions s = [] \<Longrightarrow> startGoroutine st prep fn args s = Halt ''out of memory''"
  by (simp add: startGoroutine_def alloc_def runtimePanic_def)

lemma sleepTask_eq:
  "load s p = Some t \<Longrightarrow>
   sleepTask p d s =
     Done (let s1 = store p (t\<lparr>taskState := \<lparr>status = Sleeping, wake_time = clock s + sint d\<rparr>\<rparr>) s
           in s1\<lparr>sleepQueue := insort_key (wake_of s1) p (sleepQueue s1)\<rparr>)"
  by (simp add: sleepTask_def Let_def)

lemma keeps_swapTask: "currentTask s = c \<Longrightarrow> keeps_currentTask (swapTask old new s) c"
  by (simp add: swapTask_def nilPanic_def runtimePanic_def swapTaskLower_def
      split: option.splits)

lemma keeps_Goexit: "keeps_currentTask (Goexit s) (currentTask s)"
  by (simp add: Goexit_def keeps_swapTask)

lemma keeps_startGoroutine:
  "keeps_currentTask (startGoroutine st prep fn args s) (currentTask s)"
  by (cases "free_regions s") (simp_all add: startGoroutine_eq startGoroutine_oom)

lemma keeps_sleep: "keeps_currentTask (sleep d s) (currentTask s)"
  by (simp add: sleep_def sleepTask_def nilPanic_def runtimePanic_def Let_def
      keeps_swapTask currentTask_store split: option.splits)

lemma ex_machine_current: "load ex_machine (currentTask ex_machine) = Some ex_task"
  by (simp add: load_def ex_machine_def)

lemma ex_task_canary: "canary ex_task = stackCanary"
  by (simp add: ex_task_def)

lemma ex_Goexit:
  "Goexit ex_machine = Switch (task_at 0x20001000) schedulerState_ref ex_machine Done"
  using Goexit_eq [OF ex_machine_current]
  by (simp add: ex_task_canary) (simp add: ex_machine_def)

section \<open>The canary check of the context switch\<close>

text \<open>
  C1. Every call \<open>swapTask oldTask newTask\<close> on a task compares the canary of
  \<open>oldTask\<close> with \<open>stackCanary\<close> first. If they differ the runtime halts with the
  report "goroutine stack overflow" and the platform primitive is not reached; if
  they are equal the platform primitive is invoked for exactly these two tasks, in
  the unchanged state. The check depends on nothing but the canary, so it runs on
  every switch and not only now and then.
\<close>

theorem swapTask_checks_canary:
  assumes "load s oldTask = Some t"
  shows "(canary t \<noteq> stackCanary \<longrightarrow>
            swapTask oldTask newTask s = Halt ''goroutine stack overflow'' \<and>
            \<not> reaches_switch (swapTask oldTask newTask s)) \<and>
         (canary t = stackCanary \<longrightarrow>
            swapTask oldTask newTask s = swapTaskLower oldTask newTask s \<and>
            reaches_switch (swapTask oldTask newTask s))"
  using assms by (simp add: swapTask_eq swapTaskLower_def)

text \<open>
  On the example machine the running task passes the check; once its canary is
  overwritten with zero the same call halts.
\<close>

theorem swapTask_checks_canary_witness:
  "load ex_machine (task_at 0x20001000) = Some ex_task \<and>
   canary ex_task = stackCanary \<and>
   swapTask (task_at 0x20001000) schedulerState_ref ex_machine
     = Switch (task_at 0x20001000) schedulerState_ref ex_machine Done \<and>
   load (store (task_at 0x20001000) (ex_task\<lparr>canary := 0\<rparr>) ex_machine) (task_at 0x20001000)
     = Some (ex_task\<lparr>canary := 0\<rparr>) \<and>
   canary (ex_task\<lparr>canary := 0\<rparr>) \<noteq> stackCanary \<and>
   swapTask (task_at 0x20001000) schedulerState_ref
       (store (task_at 0x20001000) (ex_task\<lparr>canary := 0\<rparr>) ex_machine)
     = Halt ''goroutine stack overflow''"
proof -
  have a: "load ex_machine (task_at 0x20001000) = Some ex_task"
    by (simp add: load_def ex_machine_def)
  have b: "load (store (task_at 0x20001000) (ex_task\<lparr>canary := 0\<rparr>) ex_machine)
      (task_at 0x20001000) = Some (ex_task\<lparr>canary := 0\<rparr>)"
    by (simp add: load_def store_def)
  have c: "canary ex_task = stackCanary"
    by (simp add: ex_task_def)
  have d: "canary (ex_task\<lparr>canary := 0\<rparr>) \<noteq> (stackCanary :: 32 word)"
    by (simp add: stackCanary_32)
  show ?thesis
    using swapTask_checks_canary [OF a, of schedulerState_ref]
      swapTask_checks_canary [OF b, of schedulerState_ref] a b c d
    by (simp add: swapTaskLower_def)
qed

section \<open>Leaving a goroutine\<close>

text \<open>
  C2, as the code has it. \<open>Goexit\<close> called by a running task writes nothing: no
  status, no queue, no deferred call. After the canary check it switches from the
  current task to the scheduler context in the very state it was called in, so the
  task is on no queue through which the scheduler loop could resume it.
\<close>

theorem Goexit_yields_unchanged:
  assumes "load s (currentTask s) = Some t"
  shows "Goexit s =
     (if canary t = stackCanary then Switch (currentTask s) schedulerState_ref s Done
      else Halt ''goroutine stack overflow'')"
  using assms by (rule Goexit_eq)

theorem Goexit_yields_unchanged_witness:
  "load ex_machine (currentTask ex_machine) = Some ex_task \<and>
   Goexit ex_machine = Switch (currentTask ex_machine) schedulerState_ref ex_machine Done"
  using Goexit_yields_unchanged [OF ex_machine_current] ex_machine_current
  by (simp add: ex_task_canary)

text \<open>
  The claim as written asks for the status \<open>Finished\<close> at the switch. A runnable
  task that calls \<open>Goexit\<close> reaches the switch with its status still \<open>Runnable\<close>.
\<close>

theorem Goexit_status_counterexample:
  "Goexit ex_machine = Switch (task_at 0x20001000) schedulerState_ref ex_machine Done \<and>
   load ex_machine (task_at 0x20001000) = Some ex_task \<and>
   status (taskState ex_task) = Runnable \<and>
   \<not> (\<exists>s' k t'. Goexit ex_machine = Switch (task_at 0x20001000) schedulerState_ref s' k \<and>
          load s' (task_at 0x20001000) = Some t' \<and> status (taskState t') = Finished)"
proof -
  have l: "load ex_machine (task_at 0x20001000) = Some ex_task"
    by (simp add: load_def ex_machine_def)
  have r: "status (taskState ex_task) = Runnable"
    by (simp add: ex_task_def)
  show ?thesis
    using ex_Goexit l r by auto
qed

section \<open>The current-task marker\<close>

text \<open>
  C3. The marker starts as nil. \<open>resume t\<close> reaches the switch from the scheduler
  context into \<open>t\<close> in a state whose marker is \<open>t\<close>, and whatever state the switch
  returns with, \<open>resume\<close> returns with the marker nil (when the scheduler's canary is
  damaged it halts instead). No other function of the file assigns the marker. So
  the marker is a task exactly between the entry and the return of \<open>resume\<close>.
\<close>

theorem resume_brackets_currentTask:
  "(currentTask_init :: 'w::len word task_ptr) = nil \<and>
   resume t (s :: 'w machine) =
     (if canary (schedulerState s) = stackCanary
      then Switch schedulerState_ref t (s\<lparr>currentTask := t\<rparr>)
             (\<lambda>s'. Done (s'\<lparr>currentTask := nil\<rparr>))
      else Halt ''goroutine stack overflow'') \<and>
   keeps_currentTask (swapTask old new s) (currentTask s) \<and>
   keeps_currentTask (Goexit s) (currentTask s) \<and>
   keeps_currentTask (deadlock s) (currentTask s) \<and>
   keeps_currentTask (chanYield s) (currentTask s) \<and>
   keeps_currentTask (sleep d s) (currentTask s) \<and>
   keeps_currentTask (startGoroutine st prep fn args s) (currentTask s) \<and>
   keeps_currentTask (reactivateParent p s) (currentTask s)"
  by (simp add: currentTask_init_def resume_eq keeps_swapTask keeps_Goexit deadlock_def
      chanYield_def keeps_sleep keeps_startGoroutine reactivateParent_def)

theorem resume_brackets_currentTask_witness:
  "resume (task_at 0x20001000) (ex_machine\<lparr>currentTask := nil\<rparr>) =
     Switch schedulerState_ref (task_at 0x20001000) ex_machine
       (\<lambda>s'. Done (s'\<lparr>currentTask := nil\<rparr>))"
  using resume_brackets_currentTask [of "task_at 0x20001000" "ex_machine\<lparr>currentTask := nil\<rparr>"]
  by (simp add: ex_machine_def schedulerState_init_def)

section \<open>Spawning\<close>

text \<open>
  C4, as the code has it. \<open>startGoroutine fn args\<close> asks the allocator for a region
  of \<open>stackSize\<close> bytes and uses its base as the task structure. It sets the resume address to
  the \<open>startTask\<close> trampoline, hands \<open>fn\<close> and \<open>args\<close> to \<open>prepareStartTask\<close>, and
  appends the task at the back of the run queue. It writes no status: the task state
  is what the region held before. The caller stays the current task and the sleep
  queue is untouched.
\<close>

theorem startGoroutine_builds_task:
  assumes "free_regions s = base # rest"
  shows "\<exists>s'. startGoroutine st prep fn args s = Done s' \<and>
           free_regions s' = rest \<and>
           allocations s' = allocations s @ [(base, stackSize)] \<and>
           pc (memory s' base) = st \<and>
           calleeSavedRegs (memory s' base) = prep fn args (calleeSavedRegs (memory s base)) \<and>
           taskState (memory s' base) = taskState (memory s base) \<and>
           runqueue s' = runqueue s @ [task_at base] \<and>
           sleepQueue s' = sleepQueue s \<and>
           currentTask s' = currentTask s"
  using assms by (simp add: startGoroutine_eq)

theorem startGoroutine_builds_task_witness:
  "free_regions ex_recycled = [0x20002000, 0x20003000] \<and>
   (\<exists>s'. startGoroutine ex_startTask ex_prepareStartTask 0x08000800 0x20000100 ex_recycled
            = Done s' \<and>
      free_regions s' = [0x20003000] \<and>
      pc (memory s' 0x20002000) = 0x08000200 \<and>
      calleeSavedRegs (memory s' 0x20002000) 4 = 0x08000800 \<and>
      calleeSavedRegs (memory s' 0x20002000) 5 = 0x20000100 \<and>
      runqueue s' = [task_at 0x20002000])"
proof -
  have a: "free_regions ex_recycled = [0x20002000, 0x20003000]"
    by (simp add: ex_recycled_def ex_machine_def)
  have b: "runqueue ex_recycled = []"
    by (simp add: ex_recycled_def ex_machine_def)
  show ?thesis
    using startGoroutine_builds_task [OF a, of ex_startTask ex_prepareStartTask
        "0x08000800" "0x20000100"] a b
    by (auto simp add: ex_startTask_def ex_prepareStartTask_def)
qed

text \<open>
  The claim as written asks for the status \<open>Runnable\<close> in the new task structure.
  Spawning into a region that held a finished task returns with the task on the run
  queue and the status \<open>Finished\<close>.
\<close>

theorem startGoroutine_status_counterexample:
  "(\<exists>s'. startGoroutine ex_startTask ex_prepareStartTask 0x08000800 0x20000100 ex_recycled
            = Done s' \<and>
      last (runqueue s') = task_at 0x20002000 \<and>
      status (taskState (memory s' 0x20002000)) = Finished) \<and>
   \<not> (\<exists>s' t. startGoroutine ex_startTask ex_prepareStartTask 0x08000800 0x20000100 ex_recycled
              = Done s' \<and>
         load s' (task_at 0x20002000) = Some t \<and> status (taskState t) = Runnable)"
proof -
  have a: "free_regions ex_recycled = [0x20002000, 0x20003000]"
    by (simp add: ex_recycled_def ex_machine_def)
  have b: "status (taskState (memory ex_recycled 0x20002000)) = Finished"
    by (simp add: ex_recycled_def)
  show ?thesis
    using startGoroutine_eq [OF a, of ex_startTask ex_prepareStartTask "0x08000800" "0x20000100"] b
    by (auto simp add: load_def)
qed

section \<open>Waiting on a channel\<close>

text \<open>
  C5, as the code has it. \<open>chanYield\<close> is \<open>Goexit\<close>: it writes no status. After the
  canary check the current task switches to the scheduler context in the state it
  was called in; what records that the task waits is kept by the channel.
\<close>

theorem chanYield_yields_unchanged:
  assumes "load s (currentTask s) = Some t"
  shows "chanYield s = Goexit s \<and>
     chanYield s =
       (if canary t = stackCanary then Switch (currentTask s) schedulerState_ref s Done
        else Halt ''goroutine stack overflow'')"
  using assms by (simp add: chanYield_def Goexit_eq)

theorem chanYield_yields_unchanged_witness:
  "load ex_machine (currentTask ex_machine) = Some ex_task \<and>
   chanYield ex_machine = Switch (currentTask ex_machine) schedulerState_ref ex_machine Done"
proof -
  have "chanYield ex_machine =
      (if canary ex_task = stackCanary
       then Switch (currentTask ex_machine) schedulerState_ref ex_machine Done
       else Halt ''goroutine stack overflow'')"
    using chanYield_yields_unchanged [OF ex_machine_current] by blast
  then show ?thesis
    using ex_machine_current by (simp add: ex_task_canary)
qed

text \<open>
  The claim as written asks for the status \<open>WaitingOnChannel\<close> at the switch. A
  runnable task that calls \<open>chanYield\<close> reaches the switch with its status still
  \<open>Runnable\<close>.
\<close>

theorem chanYield_status_counterexample:
  "chanYield ex_machine = Switch (task_at 0x20001000) schedulerState_ref ex_machine Done \<and>
   load ex_machine (task_at 0x20001000) = Some ex_task \<and>
   status (taskState ex_task) = Runnable \<and>
   \<not> (\<exists>s' k t'. chanYield ex_machine = Switch (task_at 0x20001000) schedulerState_ref s' k \<and>
          load s' (task_at 0x20001000) = Some t' \<and> status (taskState t') = WaitingOnChannel)"
proof -
  have l: "load ex_machine (task_at 0x20001000) = Some ex_task"
    by (simp add: load_def ex_machine_def)
  have r: "status (taskState ex_task) = Runnable"
    by (simp add: ex_task_def)
  show ?thesis
    using ex_Goexit l r by (auto simp add: chanYield_def)
qed

section \<open>Deadlock\<close>

text \<open>
  C6. \<open>deadlock\<close> does exactly what \<open>Goexit\<close> does, in every state: the same check,
  the same halt or the same switch to the scheduler context, in the state it was
  called in. Like \<open>Goexit\<close> it leaves the task on no queue.
\<close>

theorem deadlock_same_as_Goexit:
  "deadlock s = Goexit s \<and>
   deadlock s =
     (case load s (currentTask s) of
        None \<Rightarrow> Halt ''nil pointer dereference''
      | Some t \<Rightarrow>
          if canary t = stackCanary then Switch (currentTask s) schedulerState_ref s Done
          else Halt ''goroutine stack overflow'')"
  by (simp add: deadlock_def Goexit_def swapTask_def nilPanic_def runtimePanic_def
      swapTaskLower_def split: option.splits)

section \<open>Sleeping\<close>

text \<open>
  C7. When a running task \<open>p\<close> calls \<open>sleep d\<close>, \<open>sleepTask\<close> returns first, with
  \<open>p\<close> marked as sleeping, its wake time the clock plus \<open>d\<close>, and \<open>p\<close> in the sleep
  queue. Only then, and in that state, does \<open>p\<close> switch to the scheduler context
  (or halt, when its canary is damaged).
\<close>

theorem sleep_registers_then_yields:
  assumes "currentTask s = p" and "load s p = Some t"
  shows "\<exists>s1 t1. sleepTask p d s = Done s1 \<and>
           load s1 p = Some t1 \<and>
           status (taskState t1) = Sleeping \<and>
           wake_time (taskState t1) = clock s + sint d \<and>
           p \<in> set (sleepQueue s1) \<and>
           canary t1 = canary t \<and>
           sleep d s =
             (if canary t = stackCanary then Switch p schedulerState_ref s1 Done
              else Halt ''goroutine stack overflow'')"
proof -
  define t1 where "t1 = t\<lparr>taskState := \<lparr>status = Sleeping, wake_time = clock s + sint d\<rparr>\<rparr>"
  define s0 where "s0 = store p t1 s"
  define s1 where "s1 = s0\<lparr>sleepQueue := insort_key (wake_of s0) p (sleepQueue s0)\<rparr>"
  have nn: "p \<noteq> nil"
    using assms(2) by (rule load_not_nil)
  have st: "sleepTask p d s = Done s1"
    using assms(2) by (simp add: sleepTask_eq Let_def s1_def s0_def t1_def)
  have ld: "load s1 p = Some t1"
    using nn by (simp add: s1_def s0_def load_sleepQueue load_store_same)
  have cur: "currentTask s1 = p"
    using assms(1) by (simp add: s1_def s0_def currentTask_store)
  have mem: "p \<in> set (sleepQueue s1)"
    by (simp add: s1_def set_insort_key)
  have sw: "swapTask (currentTask s1) schedulerState_ref s1 =
      (if canary t1 \<noteq> stackCanary then Halt ''goroutine stack overflow''
       else Switch (currentTask s1) schedulerState_ref s1 Done)"
    using ld cur by (simp add: swapTask_eq)
  have sl: "sleep d s =
      (if canary t = stackCanary then Switch p schedulerState_ref s1 Done
       else Halt ''goroutine stack overflow'')"
    using assms(1) st sw cur by (simp add: sleep_def t1_def)
  show ?thesis
    using st ld mem sl by (intro exI [of _ s1] exI [of _ t1]) (simp add: t1_def)
qed

theorem sleep_registers_then_yields_witness:
  "currentTask ex_machine = task_at 0x20001000 \<and>
   load ex_machine (task_at 0x20001000) = Some ex_task \<and>
   (\<exists>s1 t1. sleepTask (task_at 0x20001000) 50 ex_machine = Done s1 \<and>
      load s1 (task_at 0x20001000) = Some t1 \<and>
      status (taskState t1) = Sleeping \<and>
      wake_time (taskState t1) = 150 \<and>
      task_at 0x20001000 \<in> set (sleepQueue s1) \<and>
      sleep 50 ex_machine = Switch (task_at 0x20001000) schedulerState_ref s1 Done)"
proof -
  have a: "currentTask ex_machine = task_at 0x20001000"
    by (simp add: ex_machine_def)
  have b: "load ex_machine (task_at 0x20001000) = Some ex_task"
    by (simp add: load_def ex_machine_def)
  have c: "clock ex_machine + sint (50 :: 64 word) = 150"
    by (simp add: ex_machine_def)
  show ?thesis
    using sleep_registers_then_yields [OF a b, of 50] a b c
    by (auto simp add: ex_task_canary)
qed

section \<open>The canary and the stack pointer of a new task\<close>

text \<open>
  C8. \<open>startGoroutine\<close> places the task structure, and with it the canary, at the
  base of the region it allocated, the low end, opposite to the initial stack
  pointer. It returns without any switch, so the new task has not run, and then the
  task at the back of the run queue has the canary \<open>stackCanary\<close>, whatever the
  region held before. No other task structure is written.
\<close>

theorem startGoroutine_writes_canary:
  assumes "free_regions s = base # rest"
  shows "\<exists>s'. startGoroutine st prep fn args s = Done s' \<and>
           \<not> reaches_switch (startGoroutine st prep fn args s) \<and>
           last (runqueue s') = task_at base \<and>
           load s' (task_at base) = Some (memory s' base) \<and>
           canary (memory s' base) = stackCanary \<and>
           sp (memory s' base) = base + word_of_nat stackSize \<and>
           (\<forall>a. a \<noteq> base \<longrightarrow> memory s' a = memory s a) \<and>
           schedulerState s' = schedulerState s"
  using assms by (simp add: startGoroutine_eq load_def)

theorem startGoroutine_writes_canary_witness:
  "free_regions ex_recycled = [0x20002000, 0x20003000] \<and>
   canary (memory ex_recycled 0x20002000) \<noteq> stackCanary \<and>
   (\<exists>s'. startGoroutine ex_startTask ex_prepareStartTask 0x08000800 0x20000100 ex_recycled
            = Done s' \<and>
      last (runqueue s') = task_at 0x20002000 \<and>
      canary (memory s' 0x20002000) = stackCanary)"
proof -
  have a: "free_regions ex_recycled = [0x20002000, 0x20003000]"
    by (simp add: ex_recycled_def ex_machine_def)
  have b: "canary (memory ex_recycled 0x20002000) \<noteq> stackCanary"
    by (simp add: ex_recycled_def stackCanary_32)
  show ?thesis
    using startGoroutine_writes_canary [OF a, of ex_startTask ex_prepareStartTask
        "0x08000800" "0x20000100"] a b
    by auto
qed

text \<open>
  C9, as the code has it. The stack pointer of a new task is the base of its region
  plus \<open>stackSize\<close>: the address just above the region, the top of an empty
  descending stack. When the sum does not wrap around it lies \<open>stackSize\<close> bytes
  above the base, at the excluded upper bound of the half-open range.
\<close>

theorem startGoroutine_sp_is_stack_top:
  assumes "free_regions (s :: 'w::len machine) = base # rest"
  shows "\<exists>s'. startGoroutine st prep fn args s = Done s' \<and>
           sp (memory s' base) = base + word_of_nat stackSize \<and>
           (unat base + stackSize < 2 ^ LENGTH('w) \<longrightarrow>
              unat (sp (memory s' base)) = unat base + stackSize)"
proof -
  have "unat (base + word_of_nat stackSize) = unat base + stackSize"
    if "unat base + stackSize < 2 ^ LENGTH('w)"
    using that by (simp add: unat_word_ariths unat_of_nat)
  then show ?thesis
    using assms by (simp add: startGoroutine_eq)
qed

theorem startGoroutine_sp_is_stack_top_witness:
  "free_regions ex_machine = [0x20002000, 0x20003000] \<and>
   unat (0x20002000 :: 32 word) + stackSize < 2 ^ LENGTH(32) \<and>
   (\<exists>s'. startGoroutine ex_startTask ex_prepareStartTask 0x08000800 0x20000100 ex_machine
            = Done s' \<and>
      sp (memory s' 0x20002000) = 0x20002400 \<and>
      unat (sp (memory s' 0x20002000)) = unat (0x20002000 :: 32 word) + stackSize)"
proof -
  have a: "free_regions ex_machine = [0x20002000, 0x20003000]"
    by (simp add: ex_machine_def)
  have b: "unat (0x20002000 :: 32 word) + stackSize < 2 ^ LENGTH(32)"
    by (simp add: stackSize_def)
  have c: "(0x20002000 :: 32 word) + word_of_nat stackSize = 0x20002400"
    by (simp add: stackSize_def)
  show ?thesis
    using startGoroutine_sp_is_stack_top [OF a, of ex_startTask ex_prepareStartTask
        "0x08000800" "0x20000100"] a b c
    by auto
qed

text \<open>
  The claim as written puts the stack pointer in the half-open range from the base
  to the base plus \<open>stackSize\<close>. For the region at \<open>0x20002000\<close> the new task's stack
  pointer is \<open>0x20002400\<close>, which is not below the base plus 1024.
\<close>

theorem startGoroutine_sp_counterexample:
  "(\<exists>s'. startGoroutine ex_startTask ex_prepareStartTask 0x08000800 0x20000100 ex_machine
            = Done s' \<and>
      sp (memory s' 0x20002000) = 0x20002400) \<and>
   \<not> (\<exists>s'. startGoroutine ex_startTask ex_prepareStartTask 0x08000800 0x20000100 ex_machine
              = Done s' \<and>
         unat (0x20002000 :: 32 word) \<le> unat (sp (memory s' 0x20002000)) \<and>
         unat (sp (memory s' 0x20002000)) < unat (0x20002000 :: 32 word) + stackSize)"
proof -
  have a: "free_regions ex_machine = [0x20002000, 0x20003000]"
    by (simp add: ex_machine_def)
  have c: "(0x20002000 :: 32 word) + word_of_nat stackSize = 0x20002400"
    by (simp add: stackSize_def)
  show ?thesis
    using startGoroutine_eq [OF a, of ex_startTask ex_prepareStartTask "0x08000800" "0x20000100"]
    by (auto simp add: c stackSize_def)
qed

section \<open>The canary of the scheduler context\<close>

text \<open>
  C10. The scheduler's own task structure starts with the canary \<open>stackCanary\<close>.
  \<open>resume\<close> switches away from the scheduler context through \<open>swapTask\<close>, so the
  check guards it too: as long as the canary of \<open>schedulerState\<close> is the one it was
  initialised with, \<open>resume\<close> reaches the switch and does not halt; with any other
  canary it halts with the overflow report.
\<close>

theorem schedulerState_canary_guards_resume:
  "canary (schedulerState_init :: 'w::len task) = stackCanary \<and>
   (canary (schedulerState s) = canary (schedulerState_init :: 'w task) \<longrightarrow>
      resume t s = Switch schedulerState_ref t (s\<lparr>currentTask := t\<rparr>)
                     (\<lambda>s'. Done (s'\<lparr>currentTask := nil\<rparr>)) \<and>
      reaches_switch (resume t s)) \<and>
   (canary (schedulerState s) \<noteq> stackCanary \<longrightarrow>
      resume t s = Halt ''goroutine stack overflow'' \<and> \<not> reaches_switch (resume t s))"
  by (simp add: schedulerState_init_def resume_eq)

theorem schedulerState_canary_guards_resume_witness:
  "schedulerState ex_machine = schedulerState_init \<and>
   canary (schedulerState ex_machine) = canary (schedulerState_init :: 32 task) \<and>
   reaches_switch (resume (task_at 0x20001000) ex_machine) \<and>
   canary (schedulerState (ex_machine\<lparr>schedulerState := zero_task\<rparr>)) \<noteq> stackCanary \<and>
   resume (task_at 0x20001000) (ex_machine\<lparr>schedulerState := zero_task\<rparr>)
     = Halt ''goroutine stack overflow''"
proof -
  have a: "schedulerState ex_machine = schedulerState_init"
    by (simp add: ex_machine_def)
  have b: "canary (schedulerState (ex_machine\<lparr>schedulerState := zero_task\<rparr>))
      \<noteq> (stackCanary :: 32 word)"
    by (simp add: zero_task_def stackCanary_32)
  show ?thesis
    using schedulerState_canary_guards_resume [of ex_machine "task_at 0x20001000"]
      schedulerState_canary_guards_resume
        [of "ex_machine\<lparr>schedulerState := zero_task\<rparr>" "task_at 0x20001000"] a b
    by simp
qed

end
